theory Spec2Isabelle
  imports Complex_Main
begin

section \<open>Structured outputs of the expense assistant\<close>

text \<open>
  A shallow embedding of \<^verbatim>\<open>src/expenses_agent/assistant/schemas.py\<close>: the four
  validated classes \<^verbatim>\<open>ExpenseData\<close>, \<^verbatim>\<open>ClassificationResult\<close>,
  \<^verbatim>\<open>AssistantResponse\<close> and \<^verbatim>\<open>ConversationContext\<close>.

  Every class is a pair of records: the keyword arguments as the caller supplies them
  (fields ending in \<open>_in\<close>; a field with a default is an option, \<open>None\<close> meaning that
  the key is absent) and the constructed object. A constructor returns either the object
  or the list of validation errors. The validation library runs the validators in this
  order, which the constructors below follow: a model validator declared with
  \<^verbatim>\<open>mode="before"\<close> sees the raw mapping first and its error ends the construction; then
  every field is checked in declaration order, the constraints of its \<^verbatim>\<open>Field\<close>
  (\<^verbatim>\<open>max_length\<close>, \<^verbatim>\<open>ge\<close>, \<^verbatim>\<open>le\<close>) before its \<^verbatim>\<open>field_validator\<close>, and the errors of
  all fields are reported together.

  Each validator is modelled as the function of the value that its decorator registers;
  no validator body uses its first parameter, which the source names \<^verbatim>\<open>self\<close>. Whether
  the library accepts a validator declared with that parameter name is decided when the
  class is defined and is not part of the model.
\<close>

subsection \<open>Values\<close>

text \<open>
  A Python \<^verbatim>\<open>str\<close> is a \<open>string\<close>, one \<open>char\<close> for one code point (code points up to
  255). \<^verbatim>\<open>str.strip()\<close> removes leading and trailing whitespace; in that range the
  whitespace code points are 9 to 13, 28 to 32, 133 and 160.
\<close>

definition isspace :: "char \<Rightarrow> bool" where
  "isspace c =
     (let n = (of_char c :: nat)
      in (9 \<le> n \<and> n \<le> 13) \<or> (28 \<le> n \<and> n \<le> 32) \<or> n = 133 \<or> n = 160)"

definition strip :: "string \<Rightarrow> string" where
  "strip s = rev (dropWhile isspace (rev (dropWhile isspace s)))"

text \<open>
  A finite \<^verbatim>\<open>Decimal\<close> and a finite \<^verbatim>\<open>float\<close> are compared by their values, which are
  rationals; the special values (NaN, the infinities) are outside the model.
\<close>

type_synonym decimal = rat
type_synonym pyfloat = rat

text \<open>
  Loosely typed values, as they occur inside the list fields: a scalar, or a dictionary
  with string keys (an association list; \<open>map_of\<close> looks a key up), or anything else.
\<close>

datatype pyval = PyStr string | PyInt int | PyFloat pyfloat | PyNone

datatype pyobj = PyDict "(string \<times> pyval) list" | PyOther

datatype ActionType =
    CREATE_EXPENSE | LIST_EXPENSES | UPDATE_EXPENSE | DELETE_EXPENSE
  | CREATE_CATEGORY | LIST_CATEGORIES | UPDATE_CATEGORY | DELETE_CATEGORY
  | CLASSIFY_EXPENSE | GET_SUMMARY | HELP | UNCLEAR

datatype ConfidenceLevel = HIGH | MEDIUM | LOW

datatype PaymentMethod =
  CREDIT_CARD | DEBIT_CARD | CASH | BANK_TRANSFER | MOBILE_PAYMENT | CHECK | OTHER

datatype Currency = USD | EUR | GBP | JPY | AUD | CAD | CHF | CNY | SEK | NZD

text \<open>
  A \<^verbatim>\<open>datetime\<close>: its wall-clock reading (in microseconds) and its \<^verbatim>\<open>tzinfo\<close>, a fixed
  offset in minutes when present.
\<close>

datatype timezone = Timezone int

definition utc :: timezone where
  "utc = Timezone 0"

record datetime =
  wall_clock :: int
  tzinfo :: "timezone option"

subsection \<open>Errors\<close>

text \<open>
  One constructor for each \<^verbatim>\<open>raise ValueError\<close> of the source and for each \<^verbatim>\<open>Field\<close>
  constraint; \<open>StringTooLong\<close> carries the name of the field.
\<close>

datatype error =
    InvalidAmount
  | StringTooLong string
  | OutOfRange
  | AlternativeNotDict
  | AlternativeMissingKey
  | AlternativeScoreOutOfRange
  | EmptyMessage
  | InconsistentClarificationState
  | HistoryNotDict
  | HistoryMissingKey
  | HistoryInvalidRole

text \<open>The errors a field contributes to the report: none when it validated.\<close>

definition errors_of :: "error list + 'a \<Rightarrow> error list" where
  "errors_of r = (case r of Inl es \<Rightarrow> es | Inr _ \<Rightarrow> [])"

text \<open>A validator raises one error; the report holds it as a one-element list.\<close>

definition raised :: "error + 'a \<Rightarrow> error list + 'a" where
  "raised r = (case r of Inl e \<Rightarrow> Inl [e] | Inr x \<Rightarrow> Inr x)"

text \<open>\<^verbatim>\<open>Field(..., max_length=n)\<close> on a string: a longer string is refused, never cut.\<close>

definition max_length :: "string \<Rightarrow> nat \<Rightarrow> string \<Rightarrow> error + string" where
  "max_length field n s = (if length s > n then Inl (StringTooLong field) else Inr s)"

text \<open>An \<^verbatim>\<open>Optional\<close> field: \<^verbatim>\<open>None\<close> passes the constraint of the inner type.\<close>

definition optional :: "('a \<Rightarrow> error + 'a) \<Rightarrow> 'a option \<Rightarrow> error + 'a option" where
  "optional f v =
     (case v of
        None \<Rightarrow> Inr None
      | Some x \<Rightarrow> (case f x of Inl e \<Rightarrow> Inl e | Inr y \<Rightarrow> Inr (Some y)))"

text \<open>A field validator runs on what the constraint let through.\<close>

definition and_then :: "error + 'a \<Rightarrow> ('a \<Rightarrow> error + 'b) \<Rightarrow> error + 'b" where
  "and_then r f = (case r of Inl e \<Rightarrow> Inl e | Inr x \<Rightarrow> f x)"

subsection \<open>ExpenseData\<close>

record ExpenseData_in =
  ed_amount_in :: "decimal option"
  ed_currency_in :: "Currency option"
  ed_description_in :: "string option"
  ed_category_name_in :: "string option"
  ed_payment_method_in :: "PaymentMethod option"
  ed_expense_date_in :: "datetime option"
  ed_notes_in :: "string option"
  ed_user_name_in :: "string option"
  ed_confidence_in :: "ConfidenceLevel option"

record ExpenseData =
  ed_amount :: "decimal option"
  ed_currency :: "Currency option"
  ed_description :: "string option"
  ed_category_name :: "string option"
  ed_payment_method :: "PaymentMethod option"
  ed_expense_date :: "datetime option"
  ed_notes :: "string option"
  ed_user_name :: "string option"
  ed_confidence :: ConfidenceLevel

definition validate_amount :: "decimal option \<Rightarrow> error + decimal option" where
  "validate_amount v =
     (case v of
        None \<Rightarrow> Inr None
      | Some a \<Rightarrow> if a \<le> 0 then Inl InvalidAmount else Inr (Some a))"

definition validate_description :: "string option \<Rightarrow> error + string option" where
  "validate_description v =
     (case v of
        None \<Rightarrow> Inr None
      | Some s \<Rightarrow> if strip s = [] then Inr None else Inr (Some (strip s)))"

definition validate_expense_date :: "datetime option \<Rightarrow> datetime option" where
  "validate_expense_date v =
     (case v of
        None \<Rightarrow> None
      | Some d \<Rightarrow> if tzinfo d = None then Some (d\<lparr>tzinfo := Some utc\<rparr>) else Some d)"

text \<open>
  The constructor. \<^verbatim>\<open>amount\<close> has a validator; \<^verbatim>\<open>description\<close> has the cap of 500 and
  a validator; \<^verbatim>\<open>notes\<close> has the cap of 1000 and no validator; \<^verbatim>\<open>expense_date\<close> has a
  validator that never fails; \<^verbatim>\<open>confidence\<close> defaults to \<open>MEDIUM\<close>.
\<close>

definition ExpenseData :: "ExpenseData_in \<Rightarrow> error list + ExpenseData" where
  "ExpenseData kw =
     (let amount = raised (validate_amount (ed_amount_in kw));
          description =
            raised (and_then (optional (max_length ''description'' 500) (ed_description_in kw))
                      validate_description);
          notes = raised (optional (max_length ''notes'' 1000) (ed_notes_in kw))
      in case (amount, description, notes) of
           (Inr a, Inr d, Inr n) \<Rightarrow>
             Inr \<lparr>ed_amount = a,
                  ed_currency = ed_currency_in kw,
                  ed_description = d,
                  ed_category_name = ed_category_name_in kw,
                  ed_payment_method = ed_payment_method_in kw,
                  ed_expense_date = validate_expense_date (ed_expense_date_in kw),
                  ed_notes = n,
                  ed_user_name = ed_user_name_in kw,
                  ed_confidence =
                    (case ed_confidence_in kw of None \<Rightarrow> MEDIUM | Some c \<Rightarrow> c)\<rparr>
         | _ \<Rightarrow> Inl (errors_of amount @ errors_of description @ errors_of notes))"

subsection \<open>ClassificationResult\<close>

record ClassificationResult_in =
  cr_category_name_in :: "string option"
  cr_category_id_in :: "int option"
  cr_confidence_in :: ConfidenceLevel
  cr_confidence_score_in :: pyfloat
  cr_reasoning_in :: "string option"
  cr_alternative_categories_in :: "pyobj list option"

record ClassificationResult =
  cr_category_name :: "string option"
  cr_category_id :: "int option"
  cr_confidence :: ConfidenceLevel
  cr_confidence_score :: pyfloat
  cr_reasoning :: "string option"
  cr_alternative_categories :: "pyobj list"

text \<open>\<^verbatim>\<open>Field(..., ge=lo, le=hi)\<close> on a float.\<close>

definition ge_le :: "pyfloat \<Rightarrow> pyfloat \<Rightarrow> pyfloat \<Rightarrow> error + pyfloat" where
  "ge_le lo hi x =
     (if x < lo then Inl OutOfRange else if x > hi then Inl OutOfRange else Inr x)"

text \<open>
  The body of a validation loop over a list: the first entry that raises ends the loop
  with its error.
\<close>

fun first_error :: "('a \<Rightarrow> error option) \<Rightarrow> 'a list \<Rightarrow> error option" where
  "first_error check [] = None"
| "first_error check (x # xs) =
     (case check x of Some e \<Rightarrow> Some e | None \<Rightarrow> first_error check xs)"

text \<open>The three checks of \<^verbatim>\<open>validate_alternatives\<close> on one entry, in the source's order.\<close>

fun check_alternative :: "pyobj \<Rightarrow> error option" where
  "check_alternative PyOther = Some AlternativeNotDict"
| "check_alternative (PyDict alt) =
     (if map_of alt ''name'' = None \<or> map_of alt ''score'' = None
      then Some AlternativeMissingKey
      else case map_of alt ''score'' of
             Some (PyInt i) \<Rightarrow>
               if 0 \<le> i \<and> i \<le> 1 then None else Some AlternativeScoreOutOfRange
           | Some (PyFloat x) \<Rightarrow>
               if 0 \<le> x \<and> x \<le> 1 then None else Some AlternativeScoreOutOfRange
           | _ \<Rightarrow> Some AlternativeScoreOutOfRange)"

definition validate_alternatives :: "pyobj list \<Rightarrow> error + pyobj list" where
  "validate_alternatives v =
     (case first_error check_alternative v of Some e \<Rightarrow> Inl e | None \<Rightarrow> Inr v)"

definition ClassificationResult ::
  "ClassificationResult_in \<Rightarrow> error list + ClassificationResult" where
  "ClassificationResult kw =
     (let confidence_score = raised (ge_le 0 1 (cr_confidence_score_in kw));
          alternative_categories =
            (case cr_alternative_categories_in kw of
               None \<Rightarrow> Inr []
             | Some v \<Rightarrow> raised (validate_alternatives v))
      in case (confidence_score, alternative_categories) of
           (Inr s, Inr alts) \<Rightarrow>
             Inr \<lparr>cr_category_name = cr_category_name_in kw,
                  cr_category_id = cr_category_id_in kw,
                  cr_confidence = cr_confidence_in kw,
                  cr_confidence_score = s,
                  cr_reasoning = cr_reasoning_in kw,
                  cr_alternative_categories = alts\<rparr>
         | _ \<Rightarrow> Inl (errors_of confidence_score @ errors_of alternative_categories))"

subsection \<open>AssistantResponse\<close>

record AssistantResponse_in =
  ar_action_in :: ActionType
  ar_success_in :: bool
  ar_message_in :: string
  ar_expense_data_in :: "ExpenseData_in option"
  ar_classification_result_in :: "ClassificationResult_in option"
  ar_confidence_in :: "ConfidenceLevel option"
  ar_requires_clarification_in :: "bool option"
  ar_clarification_questions_in :: "string list option"
  ar_data_in :: "(string \<times> pyval) list option"

record AssistantResponse =
  ar_action :: ActionType
  ar_success :: bool
  ar_message :: string
  ar_expense_data :: "ExpenseData option"
  ar_classification_result :: "ClassificationResult option"
  ar_confidence :: ConfidenceLevel
  ar_requires_clarification :: bool
  ar_clarification_questions :: "string list"
  ar_data :: "(string \<times> pyval) list option"

definition validate_message :: "string \<Rightarrow> error + string" where
  "validate_message s = (let v = strip s in if v = [] then Inl EmptyMessage else Inr v)"

definition validate_clarification_questions :: "string list \<Rightarrow> string list" where
  "validate_clarification_questions v = [strip q. q \<leftarrow> v, strip q \<noteq> []]"

text \<open>
  The model validator of mode \<^verbatim>\<open>before\<close>: it reads both keys of the raw mapping with
  their defaults (\<^verbatim>\<open>values.get(key, default)\<close>), raises, or stores the flag.
\<close>

definition validate_clarification_consistency ::
  "AssistantResponse_in \<Rightarrow> error + AssistantResponse_in" where
  "validate_clarification_consistency values =
     (let requires_clarification =
            (case ar_requires_clarification_in values of None \<Rightarrow> False | Some b \<Rightarrow> b);
          clarification_questions =
            (case ar_clarification_questions_in values of None \<Rightarrow> [] | Some qs \<Rightarrow> qs)
      in if requires_clarification \<and> clarification_questions = []
         then Inl InconsistentClarificationState
         else if \<not> requires_clarification \<and> clarification_questions \<noteq> []
         then Inr (values\<lparr>ar_requires_clarification_in := Some True\<rparr>)
         else Inr values)"

text \<open>A field that holds another validated class: the input is constructed in turn.\<close>

definition nested :: "('i \<Rightarrow> error list + 'o) \<Rightarrow> 'i option \<Rightarrow> error list + 'o option" where
  "nested model v =
     (case v of
        None \<Rightarrow> Inr None
      | Some kw \<Rightarrow> (case model kw of Inl es \<Rightarrow> Inl es | Inr obj \<Rightarrow> Inr (Some obj)))"

text \<open>The field-level pass, on the mapping the consistency pass returned.\<close>

definition AssistantResponse_fields ::
  "AssistantResponse_in \<Rightarrow> error list + AssistantResponse" where
  "AssistantResponse_fields kw =
     (let message =
            raised (and_then (max_length ''message'' 2000 (ar_message_in kw)) validate_message);
          expense_data = nested ExpenseData (ar_expense_data_in kw);
          classification_result = nested ClassificationResult (ar_classification_result_in kw)
      in case (message, expense_data, classification_result) of
           (Inr m, Inr ed, Inr cr) \<Rightarrow>
             Inr \<lparr>ar_action = ar_action_in kw,
                  ar_success = ar_success_in kw,
                  ar_message = m,
                  ar_expense_data = ed,
                  ar_classification_result = cr,
                  ar_confidence =
                    (case ar_confidence_in kw of None \<Rightarrow> MEDIUM | Some c \<Rightarrow> c),
                  ar_requires_clarification =
                    (case ar_requires_clarification_in kw of None \<Rightarrow> False | Some b \<Rightarrow> b),
                  ar_clarification_questions =
                    (case ar_clarification_questions_in kw of
                       None \<Rightarrow> []
                     | Some qs \<Rightarrow> validate_clarification_questions qs),
                  ar_data = ar_data_in kw\<rparr>
         | _ \<Rightarrow>
             Inl (errors_of message @ errors_of expense_data
                  @ errors_of classification_result))"

definition AssistantResponse :: "AssistantResponse_in \<Rightarrow> error list + AssistantResponse" where
  "AssistantResponse values =
     (case validate_clarification_consistency values of
        Inl e \<Rightarrow> Inl [e]
      | Inr values' \<Rightarrow> AssistantResponse_fields values')"

subsection \<open>ConversationContext\<close>

record ConversationContext_in =
  cc_user_name_in :: "string option"
  cc_last_expense_data_in :: "ExpenseData_in option"
  cc_last_action_in :: "ActionType option"
  cc_conversation_history_in :: "pyobj list option"
  cc_user_preferences_in :: "(string \<times> pyval) list option"

record ConversationContext =
  cc_user_name :: "string option"
  cc_last_expense_data :: "ExpenseData option"
  cc_last_action :: "ActionType option"
  cc_conversation_history :: "pyobj list"
  cc_user_preferences :: "(string \<times> pyval) list"

text \<open>The three checks of \<^verbatim>\<open>validate_conversation_history\<close> on one entry.\<close>

fun check_entry :: "pyobj \<Rightarrow> error option" where
  "check_entry PyOther = Some HistoryNotDict"
| "check_entry (PyDict entry) =
     (if map_of entry ''role'' = None \<or> map_of entry ''content'' = None
      then Some HistoryMissingKey
      else if map_of entry ''role'' \<notin> set [Some (PyStr ''user''), Some (PyStr ''assistant'')]
      then Some HistoryInvalidRole
      else None)"

definition validate_conversation_history :: "pyobj list \<Rightarrow> error + pyobj list" where
  "validate_conversation_history v =
     (case first_error check_entry v of Some e \<Rightarrow> Inl e | None \<Rightarrow> Inr v)"

definition ConversationContext ::
  "ConversationContext_in \<Rightarrow> error list + ConversationContext" where
  "ConversationContext kw =
     (let last_expense_data = nested ExpenseData (cc_last_expense_data_in kw);
          conversation_history =
            (case cc_conversation_history_in kw of
               None \<Rightarrow> Inr []
             | Some v \<Rightarrow> raised (validate_conversation_history v))
      in case (last_expense_data, conversation_history) of
           (Inr ed, Inr h) \<Rightarrow>
             Inr \<lparr>cc_user_name = cc_user_name_in kw,
                  cc_last_expense_data = ed,
                  cc_last_action = cc_last_action_in kw,
                  cc_conversation_history = h,
                  cc_user_preferences =
                    (case cc_user_preferences_in kw of None \<Rightarrow> [] | Some p \<Rightarrow> p)\<rparr>
         | _ \<Rightarrow> Inl (errors_of last_expense_data @ errors_of conversation_history))"

text \<open>
  The slice \<^verbatim>\<open>xs[i:]\<close> of Python: a negative start counts from the end, and a start
  outside the list is moved to the nearer end.
\<close>

definition slice_from :: "int \<Rightarrow> 'a list \<Rightarrow> 'a list" where
  "slice_from i xs =
     (let n = int (length xs);
          start = (if i < 0 then max (n + i) 0 else min i n)
      in drop (nat start) xs)"

definition message_entry :: "string \<Rightarrow> string \<Rightarrow> pyobj" where
  "message_entry role content = PyDict [(''role'', PyStr role), (''content'', PyStr content)]"

text \<open>
  \<^verbatim>\<open>add_message\<close> mutates the context; the model returns the context after the call.
  The method has no branch that raises.
\<close>

definition add_message :: "ConversationContext \<Rightarrow> string \<Rightarrow> string \<Rightarrow> ConversationContext" where
  "add_message self role content =
     (let history = cc_conversation_history self @ [message_entry role content]
      in if length history > 10
         then self\<lparr>cc_conversation_history := slice_from (- 10) history\<rparr>
         else self\<lparr>cc_conversation_history := history\<rparr>)"

text \<open>
  \<^verbatim>\<open>get_recent_messages\<close> returns a list and assigns nothing: the context is the same
  after the call, which is why the model returns the list alone.
\<close>

definition get_recent_messages :: "ConversationContext \<Rightarrow> int \<Rightarrow> pyobj list" where
  "get_recent_messages self count =
     (if cc_conversation_history self \<noteq> []
      then slice_from (- count) (cc_conversation_history self)
      else [])"

text \<open>A sequence of \<^verbatim>\<open>add_message\<close> calls, each given as its role and content.\<close>

fun add_messages :: "ConversationContext \<Rightarrow> (string \<times> string) list \<Rightarrow> ConversationContext" where
  "add_messages self [] = self"
| "add_messages self ((role, content) # calls) =
     add_messages (add_message self role content) calls"

subsection \<open>Vocabulary of the specification\<close>

text \<open>The last \<open>n\<close> entries of a list, in their order; the whole list when it is shorter.\<close>

definition last_n :: "nat \<Rightarrow> 'a list \<Rightarrow> 'a list" where
  "last_n n xs = drop (length xs - n) xs"

text \<open>The history entries that a sequence of \<^verbatim>\<open>add_message\<close> calls adds, in call order.\<close>

definition entries :: "(string \<times> string) list \<Rightarrow> pyobj list" where
  "entries calls = map (\<lambda>(role, content). message_entry role content) calls"

text \<open>
  A malformed alternative, in the words of the specification: not a mapping, or without
  the key \<^verbatim>\<open>name\<close>, or without the key \<^verbatim>\<open>score\<close>, or with a score that is not a
  number or lies outside the interval from 0 to 1.
\<close>

definition malformed_alternative :: "pyobj \<Rightarrow> bool" where
  "malformed_alternative e =
     (case e of
        PyOther \<Rightarrow> True
      | PyDict d \<Rightarrow>
          ''name'' \<notin> set (map fst d) \<or> ''score'' \<notin> set (map fst d) \<or>
          (case map_of d ''score'' of
             Some (PyInt i) \<Rightarrow> i < 0 \<or> 1 < i
           | Some (PyFloat x) \<Rightarrow> x < 0 \<or> 1 < x
           | _ \<Rightarrow> True))"

subsection \<open>Concrete inputs\<close>

definition example_expense :: ExpenseData_in where
  "example_expense =
     \<lparr>ed_amount_in = Some 5, ed_currency_in = Some EUR, ed_description_in = Some ''   '',
      ed_category_name_in = None, ed_payment_method_in = Some CASH, ed_expense_date_in = None,
      ed_notes_in = Some ''   '', ed_user_name_in = None, ed_confidence_in = None\<rparr>"

definition example_classification :: ClassificationResult_in where
  "example_classification =
     \<lparr>cr_category_name_in = Some ''Food'', cr_category_id_in = Some 3,
      cr_confidence_in = HIGH, cr_confidence_score_in = 9 / 10,
      cr_reasoning_in = None,
      cr_alternative_categories_in =
        Some [PyDict [(''name'', PyStr ''Travel''), (''score'', PyFloat (1 / 10))]]\<rparr>"


definition example_context :: ConversationContext where
  "example_context =
     \<lparr>cc_user_name = Some ''ana'', cc_last_expense_data = None, cc_last_action = None,
      cc_conversation_history =
        [message_entry ''user'' ''a'', message_entry ''assistant'' ''b'',
         message_entry ''user'' ''c''],
      cc_user_preferences = []\<rparr>"

definition twelve_calls :: "(string \<times> string) list" where
  "twelve_calls =
     [(''user'', ''1''), (''assistant'', ''2''), (''user'', ''3''), (''assistant'', ''4''),
      (''user'', ''5''), (''assistant'', ''6''), (''user'', ''7''), (''assistant'', ''8''),
      (''user'', ''9''), (''assistant'', ''10''), (''user'', ''11''), (''assistant'', ''12'')]"

section \<open>Properties\<close>

subsection \<open>Trimming\<close>




subsection \<open>Validation loops\<close>

lemma first_error_None_iff: "first_error check xs = None \<longleftrightarrow> (\<forall>x\<in>set xs. check x = None)"
  by (induction xs) (auto split: option.splits)

lemma first_error_append:
  "first_error check xs = None \<Longrightarrow> first_error check (xs @ ys) = first_error check ys"
  by (induction xs) (auto split: option.splits)

lemma check_alternative_iff: "check_alternative e = None \<longleftrightarrow> \<not> malformed_alternative e"
  by (cases e)
    (auto simp: malformed_alternative_def map_of_eq_None_iff split: option.splits pyval.splits)



lemma check_entry_bad_role:
  "role \<noteq> ''user'' \<Longrightarrow> role \<noteq> ''assistant'' \<Longrightarrow>
   check_entry (message_entry role content) = Some HistoryInvalidRole"
  by (simp add: message_entry_def)

subsection \<open>The constructors, case by case\<close>

lemma not_in_errors_of: "e \<notin> set (errors_of r) \<longleftrightarrow> (\<forall>es. r = Inl es \<longrightarrow> e \<notin> set es)"
  by (cases r) (simp_all add: errors_of_def)

lemma errors_of_raised: "errors_of (raised r) = (case r of Inl e \<Rightarrow> [e] | Inr _ \<Rightarrow> [])"
  by (simp add: errors_of_def raised_def split: sum.splits)


lemma ExpenseData_Inl_iff:
  "ExpenseData kw = Inl es \<longleftrightarrow>
     es \<noteq> [] \<and>
     es = errors_of (raised (validate_amount (ed_amount_in kw)))
        @ errors_of (raised (and_then (optional (max_length ''description'' 500)
             (ed_description_in kw)) validate_description))
        @ errors_of (raised (optional (max_length ''notes'' 1000) (ed_notes_in kw)))"
  by (auto simp: ExpenseData_def Let_def raised_def errors_of_def split: sum.splits)


lemma ClassificationResult_Inr_iff:
  "(\<exists>obj. ClassificationResult kw = Inr obj) \<longleftrightarrow>
     (\<exists>s. ge_le 0 1 (cr_confidence_score_in kw) = Inr s) \<and>
     (\<forall>v. cr_alternative_categories_in kw = Some v \<longrightarrow> (\<exists>v'. validate_alternatives v = Inr v'))"
  by (auto simp: ClassificationResult_def Let_def raised_def split: sum.splits option.splits)











subsection \<open>Slices and the history window\<close>

lemma slice_from_neg: "0 < n \<Longrightarrow> slice_from (- int n) xs = drop (length xs - n) xs"
  by (auto simp: slice_from_def Let_def max_def nat_diff_distrib')

lemma add_message_history:
  "cc_conversation_history (add_message self role content) =
     drop (length (cc_conversation_history self) + 1 - 10)
       (cc_conversation_history self @ [message_entry role content])"
  using slice_from_neg [of 10 "cc_conversation_history self @ [message_entry role content]"]
  by (simp add: add_message_def Let_def)

lemma add_message_last_n:
  "cc_conversation_history (add_message self role content) =
     last_n 10 (cc_conversation_history self @ [message_entry role content])"
  by (simp add: add_message_history last_n_def)

lemma last_n_window: "last_n n (last_n n xs @ ys) = last_n n (xs @ ys)"
  unfolding last_n_def by (cases "length xs \<le> n") (auto simp: ac_simps)

lemma last_n_short: "length xs \<le> n \<Longrightarrow> last_n n xs = xs"
  by (simp add: last_n_def)

lemma length_last_n: "length (last_n n xs) \<le> n"
  by (simp add: last_n_def)

lemma add_messages_history:
  "calls \<noteq> [] \<or> length (cc_conversation_history self) \<le> 10 \<Longrightarrow>
   cc_conversation_history (add_messages self calls) =
     last_n 10 (cc_conversation_history self @ entries calls)"
proof (induction calls arbitrary: self)
  case Nil
  then show ?case by (simp add: entries_def last_n_short)
next
  case (Cons c calls)
  obtain role content where c: "c = (role, content)" by (cases c)
  let ?self' = "add_message self role content"
  have "length (cc_conversation_history ?self') \<le> 10"
    by (simp add: add_message_last_n length_last_n)
  then have "cc_conversation_history (add_messages ?self' calls) =
     last_n 10 (cc_conversation_history ?self' @ entries calls)"
    using Cons.IH [of ?self'] by simp
  also have "\<dots> =
     last_n 10 ((cc_conversation_history self @ [message_entry role content]) @ entries calls)"
    by (simp only: add_message_last_n last_n_window)
  finally show ?case
    by (simp add: c entries_def)
qed

text \<open>
  What \<^verbatim>\<open>get_recent_messages\<close> returns, by the sign of \<open>count\<close>: the last \<open>count\<close>
  entries for a positive count, and the history without its first \<open>- count\<close> entries
  otherwise, which for \<open>count = 0\<close> is the whole history.
\<close>

lemma get_recent_messages_positive:
  "0 < count \<Longrightarrow>
   get_recent_messages self count = last_n (nat count) (cc_conversation_history self)"
  using slice_from_neg [of "nat count" "cc_conversation_history self"]
  by (simp add: get_recent_messages_def last_n_def)

lemma get_recent_messages_nonpositive:
  "count \<le> 0 \<Longrightarrow>
   get_recent_messages self count = drop (nat (- count)) (cc_conversation_history self)"
  by (auto simp: get_recent_messages_def slice_from_def Let_def min_def)

section \<open>The claims\<close>










text \<open>
  C5. After a sequence of \<^verbatim>\<open>add_message\<close> calls (at least one call, or a history that
  held at most 10 entries before) the history holds at most 10 entries: the last 10 of
  the earlier history followed by the added entries, in that order. After 10 calls or
  more these are the last 10 entries added. Twelve calls on an empty history leave the
  entries of the last ten calls, the first two dropped.
\<close>

theorem add_messages_sliding_window:
  "(calls \<noteq> [] \<or> length (cc_conversation_history self) \<le> 10 \<longrightarrow>
      length (cc_conversation_history (add_messages self calls)) \<le> 10 \<and>
      cc_conversation_history (add_messages self calls) =
        last_n 10 (cc_conversation_history self @ entries calls)) \<and>
   (10 \<le> length calls \<longrightarrow>
      cc_conversation_history (add_messages self calls) = last_n 10 (entries calls)) \<and>
   (cc_conversation_history self = [] \<and> length calls = 12 \<longrightarrow>
      cc_conversation_history (add_messages self calls) = entries (drop 2 calls))"
proof (intro conjI impI)
  assume h: "calls \<noteq> [] \<or> length (cc_conversation_history self) \<le> 10"
  show "cc_conversation_history (add_messages self calls) =
        last_n 10 (cc_conversation_history self @ entries calls)"
    using h by (rule add_messages_history)
  then show "length (cc_conversation_history (add_messages self calls)) \<le> 10"
    by (simp add: length_last_n)
next
  assume l: "10 \<le> length calls"
  then have "calls \<noteq> []" by auto
  then have "cc_conversation_history (add_messages self calls) =
        last_n 10 (cc_conversation_history self @ entries calls)"
    by (simp add: add_messages_history)
  also have "\<dots> = last_n 10 (entries calls)"
    using l by (simp add: last_n_def entries_def)
  finally show "cc_conversation_history (add_messages self calls) = last_n 10 (entries calls)" .
next
  assume a: "cc_conversation_history self = [] \<and> length calls = 12"
  then have "cc_conversation_history (add_messages self calls) = last_n 10 (entries calls)"
    using add_messages_history [of calls self] by simp
  also have "\<dots> = entries (drop 2 calls)"
    using a by (simp add: last_n_def entries_def drop_map)
  finally show "cc_conversation_history (add_messages self calls) = entries (drop 2 calls)" .
qed

theorem add_messages_sliding_window_witness:
  "length (cc_conversation_history
     (add_messages (example_context\<lparr>cc_conversation_history := []\<rparr>) twelve_calls)) \<le> 10 \<and>
   cc_conversation_history
     (add_messages (example_context\<lparr>cc_conversation_history := []\<rparr>) twelve_calls) =
   entries [(''user'', ''3''), (''assistant'', ''4''),
      (''user'', ''5''), (''assistant'', ''6''), (''user'', ''7''), (''assistant'', ''8''),
      (''user'', ''9''), (''assistant'', ''10''), (''user'', ''11''), (''assistant'', ''12'')]"
proof -
  let ?empty = "example_context\<lparr>cc_conversation_history := []\<rparr>"
  note window = add_messages_sliding_window [of twelve_calls ?empty]
  have some: "twelve_calls \<noteq> [] \<or> length (cc_conversation_history ?empty) \<le> 10"
    by (simp add: twelve_calls_def)
  have twelve: "cc_conversation_history ?empty = [] \<and> length twelve_calls = 12"
    by (simp add: twelve_calls_def)
  have rest: "drop 2 twelve_calls =
    [(''user'', ''3''), (''assistant'', ''4''),
      (''user'', ''5''), (''assistant'', ''6''), (''user'', ''7''), (''assistant'', ''8''),
      (''user'', ''9''), (''assistant'', ''10''), (''user'', ''11''), (''assistant'', ''12'')]"
    by (simp add: twelve_calls_def)
  from window some
  have a: "length (cc_conversation_history (add_messages ?empty twelve_calls)) \<le> 10"
    by blast
  from window twelve
  have b: "cc_conversation_history (add_messages ?empty twelve_calls) =
    entries (drop 2 twelve_calls)"
    by blast
  show ?thesis
    using a b [unfolded rest] by (rule conjI)
qed

text \<open>
  C6, at the input where the source departs from it: \<^verbatim>\<open>get_recent_messages(0)\<close> on a
  history of three entries. The slice \<^verbatim>\<open>history[-0:]\<close> is \<^verbatim>\<open>history[0:]\<close>, so the call
  returns all three entries and not the last zero of them.
\<close>

theorem get_recent_messages_zero_returns_all:
  "get_recent_messages example_context 0 =
     [message_entry ''user'' ''a'', message_entry ''assistant'' ''b'',
      message_entry ''user'' ''c'']"
  by (simp add: get_recent_messages_def example_context_def slice_from_def)

text \<open>
  C7. \<^verbatim>\<open>add_message\<close> checks nothing: called with a role other than \<^verbatim>\<open>user\<close> and
  \<^verbatim>\<open>assistant\<close> on a context whose history the validator accepts, it returns a context
  whose history ends with the new entry, and the validator rejects that history for the
  role.
\<close>

theorem add_message_role_unchecked:
  assumes "role \<noteq> ''user''" and "role \<noteq> ''assistant''"
    and "validate_conversation_history (cc_conversation_history self) =
           Inr (cc_conversation_history self)"
  shows "last (cc_conversation_history (add_message self role content)) =
           message_entry role content \<and>
         message_entry role content \<in> set (cc_conversation_history (add_message self role content)) \<and>
         validate_conversation_history (cc_conversation_history (add_message self role content)) =
           Inl HistoryInvalidRole"
proof -
  let ?h = "cc_conversation_history self"
  let ?e = "message_entry role content"
  let ?k = "length ?h + 1 - 10"
  have new: "cc_conversation_history (add_message self role content) = drop ?k ?h @ [?e]"
    by (simp add: add_message_history)
  have "first_error check_entry ?h = None"
    using assms(3) by (simp add: validate_conversation_history_def split: option.splits)
  then have "\<forall>x\<in>set (drop ?k ?h). check_entry x = None"
    by (auto simp: first_error_None_iff dest: in_set_dropD)
  then have "first_error check_entry (drop ?k ?h) = None"
    by (simp add: first_error_None_iff)
  then have "first_error check_entry (drop ?k ?h @ [?e]) = Some HistoryInvalidRole"
    using check_entry_bad_role [OF assms(1,2)] by (simp add: first_error_append)
  then show ?thesis
    by (simp add: new validate_conversation_history_def)
qed

theorem add_message_role_unchecked_witness:
  "validate_conversation_history (cc_conversation_history example_context) =
     Inr (cc_conversation_history example_context) \<and>
   last (cc_conversation_history (add_message example_context ''system'' ''x'')) =
     message_entry ''system'' ''x'' \<and>
   validate_conversation_history
     (cc_conversation_history (add_message example_context ''system'' ''x'')) =
     Inl HistoryInvalidRole"
proof -
  have v: "validate_conversation_history (cc_conversation_history example_context) =
     Inr (cc_conversation_history example_context)"
    by (simp add: example_context_def validate_conversation_history_def message_entry_def)
  show ?thesis
    using v add_message_role_unchecked [OF _ _ v, of "''system''" "''x''"] by simp
qed



text \<open>
  C9. If one entry of the list of alternatives is malformed, \<^verbatim>\<open>validate_alternatives\<close>
  fails and so does the construction of the \<^verbatim>\<open>ClassificationResult\<close> given that list.
  When the validator accepts a list, it returns that very list, and no entry of it is
  malformed: a filtered list is never returned.
\<close>

theorem alternatives_rejected_as_a_whole:
  "((\<exists>e\<in>set v. malformed_alternative e) \<longrightarrow>
      (\<exists>err. validate_alternatives v = Inl err) \<and>
      (cr_alternative_categories_in kw = Some v \<longrightarrow> (\<exists>es. ClassificationResult kw = Inl es))) \<and>
   (\<forall>v'. validate_alternatives v = Inr v' \<longrightarrow> v' = v \<and> (\<forall>e\<in>set v. \<not> malformed_alternative e))"
proof -
  have iff: "first_error check_alternative v = None \<longleftrightarrow> (\<forall>e\<in>set v. \<not> malformed_alternative e)"
    using check_alternative_iff by (simp add: first_error_None_iff)
  have 1: "\<exists>err. validate_alternatives v = Inl err" if "\<exists>e\<in>set v. malformed_alternative e"
    using that iff by (auto simp: validate_alternatives_def split: option.splits)
  have 2: "\<exists>es. ClassificationResult kw = Inl es"
    if "\<exists>e\<in>set v. malformed_alternative e" "cr_alternative_categories_in kw = Some v"
  proof (cases "ClassificationResult kw")
    case (Inl es)
    then show ?thesis by blast
  next
    case (Inr obj)
    then have "\<exists>v'. validate_alternatives v = Inr v'"
      using ClassificationResult_Inr_iff [of kw] that(2) by blast
    then show ?thesis using 1 [OF that(1)] by auto
  qed
  have 3: "v' = v \<and> (\<forall>e\<in>set v. \<not> malformed_alternative e)"
    if "validate_alternatives v = Inr v'" for v'
    using that iff by (auto simp: validate_alternatives_def split: option.splits)
  show ?thesis using 1 2 3 by blast
qed

theorem alternatives_rejected_as_a_whole_witness:
  "(\<exists>err. validate_alternatives
      [PyDict [(''name'', PyStr ''Travel''), (''score'', PyFloat (1 / 10))],
       PyDict [(''name'', PyStr ''Home'')]] = Inl err) \<and>
   (\<exists>es. ClassificationResult (example_classification\<lparr>cr_alternative_categories_in :=
      Some [PyDict [(''name'', PyStr ''Travel''), (''score'', PyFloat (1 / 10))],
            PyDict [(''name'', PyStr ''Home'')]]\<rparr>) = Inl es) \<and>
   \<not> malformed_alternative (PyDict [(''name'', PyStr ''Travel''), (''score'', PyFloat (1 / 10))])"
proof -
  have ok: "validate_alternatives
      [PyDict [(''name'', PyStr ''Travel''), (''score'', PyFloat (1 / 10))]] =
      Inr [PyDict [(''name'', PyStr ''Travel''), (''score'', PyFloat (1 / 10))]]"
    by (simp add: validate_alternatives_def)
  have bad: "\<exists>e\<in>set [PyDict [(''name'', PyStr ''Travel''), (''score'', PyFloat (1 / 10))],
       PyDict [(''name'', PyStr ''Home'')]]. malformed_alternative e"
    by (simp add: malformed_alternative_def)
  note whole = alternatives_rejected_as_a_whole
      [of "[PyDict [(''name'', PyStr ''Travel''), (''score'', PyFloat (1 / 10))],
            PyDict [(''name'', PyStr ''Home'')]]"
          "example_classification\<lparr>cr_alternative_categories_in :=
             Some [PyDict [(''name'', PyStr ''Travel''), (''score'', PyFloat (1 / 10))],
                   PyDict [(''name'', PyStr ''Home'')]]\<rparr>",
       THEN conjunct1, THEN mp, OF bad]
  have a: "(\<exists>err. validate_alternatives
      [PyDict [(''name'', PyStr ''Travel''), (''score'', PyFloat (1 / 10))],
       PyDict [(''name'', PyStr ''Home'')]] = Inl err) \<and>
   (\<exists>es. ClassificationResult (example_classification\<lparr>cr_alternative_categories_in :=
      Some [PyDict [(''name'', PyStr ''Travel''), (''score'', PyFloat (1 / 10))],
            PyDict [(''name'', PyStr ''Home'')]]\<rparr>) = Inl es)"
    using whole by simp
  from alternatives_rejected_as_a_whole
      [of "[PyDict [(''name'', PyStr ''Travel''), (''score'', PyFloat (1 / 10))]]" kw for kw] ok
  have b: "\<not> malformed_alternative
      (PyDict [(''name'', PyStr ''Travel''), (''score'', PyFloat (1 / 10))])"
    by simp
  show ?thesis using a b by blast
qed

text \<open>
  C10. An amount that is zero or negative fails the amount validator and the
  construction, whatever the other fields are. With a positive amount, or none, the
  amount validator returns the amount, and no report of a failed construction holds the
  amount error.
\<close>

theorem amount_must_be_positive:
  "(ed_amount_in kw = Some a \<and> a \<le> 0 \<longrightarrow>
      validate_amount (ed_amount_in kw) = Inl InvalidAmount \<and>
      (\<exists>es. ExpenseData kw = Inl es \<and> InvalidAmount \<in> set es)) \<and>
   (ed_amount_in kw = None \<or> (ed_amount_in kw = Some a \<and> 0 < a) \<longrightarrow>
      validate_amount (ed_amount_in kw) = Inr (ed_amount_in kw) \<and>
      InvalidAmount \<notin> set (errors_of (ExpenseData kw)))"
proof (intro conjI impI)
  assume h: "ed_amount_in kw = Some a \<and> a \<le> 0"
  then show v: "validate_amount (ed_amount_in kw) = Inl InvalidAmount"
    by (simp add: validate_amount_def)
  show "\<exists>es. ExpenseData kw = Inl es \<and> InvalidAmount \<in> set es"
    by (simp add: ExpenseData_Inl_iff v errors_of_raised)
next
  assume h: "ed_amount_in kw = None \<or> (ed_amount_in kw = Some a \<and> 0 < a)"
  then show v: "validate_amount (ed_amount_in kw) = Inr (ed_amount_in kw)"
    by (auto simp: validate_amount_def)
  show "InvalidAmount \<notin> set (errors_of (ExpenseData kw))"
    unfolding not_in_errors_of
    by (auto simp: ExpenseData_Inl_iff v errors_of_raised and_then_def optional_def
          max_length_def validate_description_def split: sum.splits option.splits if_splits)
qed

theorem amount_must_be_positive_witness:
  "ExpenseData (example_expense\<lparr>ed_amount_in := Some (- 1)\<rparr>) = Inl [InvalidAmount] \<and>
   (\<exists>es. ExpenseData (example_expense\<lparr>ed_amount_in := Some 0\<rparr>) = Inl es
      \<and> InvalidAmount \<in> set es) \<and>
   InvalidAmount \<notin> set (errors_of (ExpenseData example_expense)) \<and>
   InvalidAmount \<notin> set (errors_of (ExpenseData (example_expense\<lparr>ed_amount_in := None\<rparr>)))"
proof -
  have "ExpenseData (example_expense\<lparr>ed_amount_in := Some (- 1)\<rparr>) = Inl [InvalidAmount]"
    by (simp add: example_expense_def ExpenseData_def Let_def validate_amount_def raised_def
        errors_of_def and_then_def optional_def max_length_def validate_description_def)
  then show ?thesis
    using amount_must_be_positive [of "example_expense\<lparr>ed_amount_in := Some 0\<rparr>" 0]
      amount_must_be_positive [of "example_expense" 5]
      amount_must_be_positive [of "example_expense\<lparr>ed_amount_in := None\<rparr>" 0]
    by (simp add: example_expense_def)
qed

end
